theory Spec2Isabelle
  imports Main
begin

section \<open>The billiard hall scoreboard: table state machine of server.js\<close>

text \<open>
  The server keeps all of its state in two relations of a MySQL database: \<open>tables\<close>, one
  row per physical table, and \<open>games\<close>, the append-only ledger of finished games. Every
  request handler is a short sequence of queries against them. The model passes the
  database explicitly: a handler takes the database and the fields of the request body and
  returns the HTTP answer together with the database it leaves behind.
\<close>

subsection \<open>Rows and the database\<close>

text \<open>
  Modelled from the spec: the column types of \<open>tables\<close> and \<open>games\<close>. The SQL schema is
  not part of the source; the handlers only name the columns. Following the data model of
  the specification, scores, targets and the inning counter are integers, the player,
  colour and turn columns are nullable strings, and the start time is a nullable
  timestamp. A table is identified by its number, so \<open>tables\<close> is a map from
  \<open>table_num\<close> to the remaining columns of the row.
\<close>

type_synonym timestamp = nat

record table_row =
  status :: string
  player1 :: "string option"
  player2 :: "string option"
  score1 :: int
  score2 :: int
  target1 :: int
  target2 :: int
  color1 :: "string option"
  color2 :: "string option"
  current_turn :: "string option"
  inning :: int
  start_time :: "timestamp option"

record game_row =
  g_table_num :: int
  g_player1 :: "string option"
  g_player2 :: "string option"
  g_score1 :: int
  g_score2 :: int
  g_winner :: "string option"
  g_start_time :: "timestamp option"

record db =
  tables :: "int \<rightharpoonup> table_row"
  games :: "game_row list"

subsection \<open>Answers\<close>

text \<open>
  The failing answers of the handlers, by the place they are sent from:
  \<^item> \<open>InvalidInput\<close>: status 400 of \<open>createRoom\<close> when \<open>!tableNum || !nickname\<close>;
  \<^item> \<open>NotFound\<close>: status 404 when \<open>rows.length === 0\<close> (\<open>createRoom\<close>);
  \<^item> \<open>InvalidState\<close>: status 400 when the table is not in the status the handler asks for
    (\<open>createRoom\<close>, \<open>joinRoom\<close>);
  \<^item> \<open>InternalError\<close>: status 500 sent by the \<open>catch\<close> block of a handler. In the model it
    arises where the handler reads a property of \<open>rows[0]\<close> and the query returned no
    row: \<open>rows[0]\<close> is \<open>undefined\<close> and the property access throws a TypeError.
  The successful answers carry \<open>success: true\<close> and, for \<open>setColors\<close> and \<open>nextTurn\<close>, the
  extra fields of the payload.
\<close>

datatype error = InvalidInput | NotFound | InvalidState | InternalError

datatype reply =
    Ack
  | Started string
  | GameOver string
  | TurnPassed

type_synonym answer = "error + reply"

subsection \<open>The two queries\<close>

text \<open>
  \<open>SELECT ... FROM tables WHERE table_num = ?\<close> yields the array \<open>rows\<close>: empty when no
  table has that number, one row otherwise.
  \<open>UPDATE tables SET ... WHERE table_num = ?\<close> rewrites the row with that number and does
  nothing, without an error, when there is none.
\<close>

definition select_table :: "db \<Rightarrow> int \<Rightarrow> table_row list" where
  "select_table d tableNum = (case tables d tableNum of None \<Rightarrow> [] | Some r \<Rightarrow> [r])"

definition update_table :: "db \<Rightarrow> int \<Rightarrow> (table_row \<Rightarrow> table_row) \<Rightarrow> db" where
  "update_table d tableNum f =
     (case tables d tableNum of
        None \<Rightarrow> d
      | Some r \<Rightarrow> d\<lparr>tables := (tables d)(tableNum \<mapsto> f r)\<rparr>)"

definition insert_game :: "db \<Rightarrow> game_row \<Rightarrow> db" where
  "insert_game d g = d\<lparr>games := games d @ [g]\<rparr>"

text \<open>
  The column assignments shared by \<open>endGame\<close> and \<open>cancelRoom\<close>
  (\<open>SET status = 'available', player1 = NULL, ..., start_time = NULL\<close>), and the row they
  produce.
\<close>

definition reset_row :: "table_row \<Rightarrow> table_row" where
  "reset_row r =
     r\<lparr>status := ''available'',
       player1 := None,
       player2 := None,
       score1 := 0,
       score2 := 0,
       target1 := 0,
       target2 := 0,
       color1 := None,
       color2 := None,
       current_turn := None,
       inning := 0,
       start_time := None\<rparr>"

definition zero_row :: table_row where
  "zero_row =
     \<lparr>status = ''available'',
      player1 = None,
      player2 = None,
      score1 = 0,
      score2 = 0,
      target1 = 0,
      target2 = 0,
      color1 = None,
      color2 = None,
      current_turn = None,
      inning = 0,
      start_time = None\<rparr>"

subsection \<open>The handlers\<close>

text \<open>
  The fields of the request body are taken as present and of the type the handler expects:
  \<open>tableNum\<close>, \<open>score\<close> numbers, \<open>nickname\<close>, \<open>color1\<close>, \<open>color2\<close> strings. The optional
  \<open>target\<close> is \<open>None\<close> when the body leaves it out, and the default of the destructuring
  pattern applies. JavaScript's \<open>!tableNum\<close> holds of the number 0 and \<open>!nickname\<close> of the
  empty string. \<open>NOW()\<close> is an argument of \<open>setColors\<close>.
\<close>

definition createRoom :: "db \<Rightarrow> int \<Rightarrow> string \<Rightarrow> int option \<Rightarrow> answer \<times> db" where
  "createRoom d tableNum nickname target_opt =
     (let target = (case target_opt of None \<Rightarrow> 25 | Some t \<Rightarrow> t) in
      if tableNum = 0 \<or> nickname = [] then (Inl InvalidInput, d)
      else
        (case select_table d tableNum of
           [] \<Rightarrow> (Inl NotFound, d)
         | row # _ \<Rightarrow>
             if status row \<noteq> ''available'' then (Inl InvalidState, d)
             else
               (Inr Ack,
                update_table d tableNum
                  (\<lambda>r. r\<lparr>status := ''waiting'', player1 := Some nickname, target1 := target\<rparr>))))"

definition joinRoom :: "db \<Rightarrow> int \<Rightarrow> string \<Rightarrow> answer \<times> db" where
  "joinRoom d tableNum nickname =
     (case select_table d tableNum of
        [] \<Rightarrow> (Inl InvalidState, d)
      | row # _ \<Rightarrow>
          if status row \<noteq> ''waiting'' then (Inl InvalidState, d)
          else (Inr Ack, update_table d tableNum (\<lambda>r. r\<lparr>player2 := Some nickname\<rparr>)))"

definition approveJoin :: "db \<Rightarrow> int \<Rightarrow> int option \<Rightarrow> answer \<times> db" where
  "approveJoin d tableNum target_opt =
     (let target = (case target_opt of None \<Rightarrow> 20 | Some t \<Rightarrow> t) in
      (Inr Ack, update_table d tableNum (\<lambda>r. r\<lparr>target2 := target\<rparr>)))"

definition setColors :: "db \<Rightarrow> int \<Rightarrow> string \<Rightarrow> string \<Rightarrow> timestamp \<Rightarrow> answer \<times> db" where
  "setColors d tableNum c1 c2 now =
     (let starter = (if c2 = ''white'' then ''player2'' else ''player1'') in
      (Inr (Started starter),
       update_table d tableNum
         (\<lambda>r. r\<lparr>status := ''occupied'',
                color1 := Some c1,
                color2 := Some c2,
                current_turn := Some starter,
                inning := 1,
                start_time := Some now\<rparr>)))"

definition updateScore :: "db \<Rightarrow> int \<Rightarrow> int \<Rightarrow> answer \<times> db" where
  "updateScore d tableNum score =
     (case select_table d tableNum of
        [] \<Rightarrow> (Inl InternalError, d)
      | row # _ \<Rightarrow>
          if current_turn row = Some ''player1''
          then (Inr Ack, update_table d tableNum (\<lambda>r. r\<lparr>score1 := score\<rparr>))
          else (Inr Ack, update_table d tableNum (\<lambda>r. r\<lparr>score2 := score\<rparr>)))"

definition nextTurn :: "db \<Rightarrow> int \<Rightarrow> answer \<times> db" where
  "nextTurn d tableNum =
     (case select_table d tableNum of
        [] \<Rightarrow> (Inl InternalError, d)
      | tbl # _ \<Rightarrow>
          if score1 tbl \<ge> target1 tbl then (Inr (GameOver ''player1''), d)
          else if score2 tbl \<ge> target2 tbl then (Inr (GameOver ''player2''), d)
          else
            (let nextTurn = (if current_turn tbl = Some ''player1'' then ''player2'' else ''player1'');
                 nextInning = (if nextTurn = ''player1'' then inning tbl + 1 else inning tbl)
             in (Inr TurnPassed,
                 update_table d tableNum
                   (\<lambda>r. r\<lparr>current_turn := Some nextTurn, inning := nextInning\<rparr>))))"

definition endGame :: "db \<Rightarrow> int \<Rightarrow> answer \<times> db" where
  "endGame d tableNum =
     (case select_table d tableNum of
        [] \<Rightarrow> (Inl InternalError, d)
      | tbl # _ \<Rightarrow>
          (let winner = (if score1 tbl \<ge> target1 tbl then player1 tbl else player2 tbl);
               d1 = insert_game d
                      \<lparr>g_table_num = tableNum,
                       g_player1 = player1 tbl,
                       g_player2 = player2 tbl,
                       g_score1 = score1 tbl,
                       g_score2 = score2 tbl,
                       g_winner = winner,
                       g_start_time = start_time tbl\<rparr>
           in (Inr Ack, update_table d1 tableNum reset_row)))"

definition cancelRoom :: "db \<Rightarrow> int \<Rightarrow> answer \<times> db" where
  "cancelRoom d tableNum = (Inr Ack, update_table d tableNum reset_row)"

subsection \<open>Sequences of requests\<close>

datatype request =
    CreateRoom int string "int option"
  | JoinRoom int string
  | ApproveJoin int "int option"
  | SetColors int string string timestamp
  | UpdateScore int int
  | NextTurn int
  | EndGame int
  | CancelRoom int

fun handle :: "db \<Rightarrow> request \<Rightarrow> answer \<times> db" where
  "handle d (CreateRoom n nick t) = createRoom d n nick t"
| "handle d (JoinRoom n nick) = joinRoom d n nick"
| "handle d (ApproveJoin n t) = approveJoin d n t"
| "handle d (SetColors n c1 c2 now) = setColors d n c1 c2 now"
| "handle d (UpdateScore n s) = updateScore d n s"
| "handle d (NextTurn n) = nextTurn d n"
| "handle d (EndGame n) = endGame d n"
| "handle d (CancelRoom n) = cancelRoom d n"

fun run :: "db \<Rightarrow> request list \<Rightarrow> db" where
  "run d [] = d"
| "run d (q # qs) = run (snd (handle d q)) qs"

subsection \<open>The state of an available table\<close>

definition all_zero :: "table_row \<Rightarrow> bool" where
  "all_zero r \<longleftrightarrow>
     player1 r = None \<and> player2 r = None \<and> score1 r = 0 \<and> score2 r = 0 \<and>
     target1 r = 0 \<and> target2 r = 0 \<and> color1 r = None \<and> color2 r = None \<and>
     current_turn r = None \<and> inning r = 0 \<and> start_time r = None"

definition available_zero :: "table_row \<Rightarrow> bool" where
  "available_zero r \<longleftrightarrow> (status r = ''available'' \<longrightarrow> all_zero r)"

definition tables_inv :: "db \<Rightarrow> bool" where
  "tables_inv d \<longleftrightarrow> (\<forall>n r. tables d n = Some r \<longrightarrow> available_zero r)"


text \<open>
  Requests that write a non-zero value into a table that is available: \<open>approveJoin\<close>
  and \<open>updateScore\<close> are the two handlers that write a column without looking at, or
  changing, the status.
\<close>

fun writes_available :: "db \<Rightarrow> request \<Rightarrow> bool" where
  "writes_available d (ApproveJoin n t) =
     (case tables d n of
        None \<Rightarrow> False
      | Some r \<Rightarrow> status r = ''available'' \<and> (case t of None \<Rightarrow> 20 | Some x \<Rightarrow> x) \<noteq> (0::int))"
| "writes_available d (UpdateScore n s) =
     (case tables d n of
        None \<Rightarrow> False
      | Some r \<Rightarrow> status r = ''available'' \<and> s \<noteq> 0)"
| "writes_available d _ = False"

fun guarded_run :: "db \<Rightarrow> request list \<Rightarrow> bool" where
  "guarded_run d [] = True"
| "guarded_run d (q # qs) = (\<not> writes_available d q \<and> guarded_run (snd (handle d q)) qs)"

subsection \<open>Sample states\<close>

definition hall_with :: "table_row \<Rightarrow> db" where
  "hall_with r = \<lparr>tables = [1 \<mapsto> zero_row, 5 \<mapsto> r], games = []\<rparr>"

definition hall :: db where
  "hall = hall_with zero_row"

definition kim_lee_row :: table_row where
  "kim_lee_row =
     \<lparr>status = ''waiting'', player1 = Some ''Kim'', player2 = Some ''Lee'',
      score1 = 0, score2 = 0, target1 = 25, target2 = 20,
      color1 = None, color2 = None, current_turn = None, inning = 0, start_time = None\<rparr>"

definition midgame_row :: table_row where
  "midgame_row =
     \<lparr>status = ''occupied'', player1 = Some ''Kim'', player2 = Some ''Lee'',
      score1 = 12, score2 = 15, target1 = 25, target2 = 20,
      color1 = Some ''red'', color2 = Some ''white'', current_turn = Some ''player2'',
      inning = 3, start_time = Some 1000\<rparr>"

definition scenario :: "request list" where
  "scenario =
     [CreateRoom 5 ''Kim'' (Some 25), JoinRoom 5 ''Lee'', ApproveJoin 5 (Some 20),
      SetColors 5 ''red'' ''white'' 1000, UpdateScore 5 20, NextTurn 5, EndGame 5]"


section \<open>Basic facts about the queries\<close>

lemma select_table_Some: "tables d n = Some r \<Longrightarrow> select_table d n = [r]"
  by (simp add: select_table_def)

lemma select_table_None: "tables d n = None \<Longrightarrow> select_table d n = []"
  by (simp add: select_table_def)

lemma update_table_Some:
  "tables d n = Some r \<Longrightarrow> update_table d n f = d\<lparr>tables := (tables d)(n \<mapsto> f r)\<rparr>"
  by (simp add: update_table_def)

lemma update_table_None: "tables d n = None \<Longrightarrow> update_table d n f = d"
  by (simp add: update_table_def)

lemma reset_row_zero: "reset_row r = zero_row"
  by (simp add: reset_row_def zero_row_def)

lemma tables_hall_with:
  "tables (hall_with r) 5 = Some r"
  "tables (hall_with r) 1 = Some zero_row"
  "tables (hall_with r) 7 = None"
  by (simp_all add: hall_with_def)

text \<open>
  The waiting table of Kim and Lee is what \<open>createRoom\<close>, \<open>joinRoom\<close> and \<open>approveJoin\<close>
  make of an available table 5; its turn is still NULL, since \<open>setColors\<close> has not run.
\<close>

lemma kim_lee_reachable:
  "run hall [CreateRoom 5 ''Kim'' (Some 25), JoinRoom 5 ''Lee'', ApproveJoin 5 (Some 20)]
     = hall_with kim_lee_row"
  by (simp add: hall_def hall_with_def kim_lee_row_def zero_row_def createRoom_def joinRoom_def
      approveJoin_def select_table_def update_table_def)

section \<open>Ending a game\<close>

text \<open>
  Claim C1. For every table that \<open>endGame\<close> finds, the game record it appends names as
  winner the nickname in \<open>player1\<close> when \<open>score1 \<ge> target1\<close> and the nickname in
  \<open>player2\<close> otherwise; \<open>score2\<close> and \<open>target2\<close> are not looked at, so with
  \<open>score1 < target1\<close> the winner is \<open>player2\<close> whatever \<open>score2\<close> is.
\<close>

theorem endGame_winner:
  "tables d tableNum = Some tbl \<Longrightarrow>
     fst (endGame d tableNum) = Inr Ack \<and>
     length (games (snd (endGame d tableNum))) = Suc (length (games d)) \<and>
     (score1 tbl \<ge> target1 tbl \<longrightarrow>
        g_winner (last (games (snd (endGame d tableNum)))) = player1 tbl) \<and>
     (score1 tbl < target1 tbl \<longrightarrow>
        g_winner (last (games (snd (endGame d tableNum)))) = player2 tbl)"
  by (simp add: endGame_def select_table_Some insert_game_def update_table_def Let_def)

text \<open>
  On the table of Kim and Lee before any point is scored, neither score has reached its
  target, and the win goes to Lee; with Kim at 25 of 25 it goes to Kim.
\<close>

theorem endGame_winner_witness:
  "tables (hall_with kim_lee_row) 5 = Some kim_lee_row \<and>
   score1 kim_lee_row < target1 kim_lee_row \<and>
   score2 kim_lee_row < target2 kim_lee_row \<and>
   g_winner (last (games (snd (endGame (hall_with kim_lee_row) 5)))) = Some ''Lee'' \<and>
   score1 (midgame_row\<lparr>score1 := 25\<rparr>) \<ge> target1 (midgame_row\<lparr>score1 := 25\<rparr>) \<and>
   g_winner (last (games (snd (endGame (hall_with (midgame_row\<lparr>score1 := 25\<rparr>)) 5))))
     = Some ''Kim''"
  using endGame_winner [OF tables_hall_with(1), of kim_lee_row]
    endGame_winner [OF tables_hall_with(1), of "midgame_row\<lparr>score1 := 25\<rparr>"]
  by (simp add: tables_hall_with kim_lee_row_def midgame_row_def)

text \<open>
  Claim C6. For every table that \<open>endGame\<close> finds, the call succeeds, appends exactly one
  record to \<open>games\<close>, made of the table number, both players, both scores, the winner and
  the start time of the table, and leaves the table in the available all-null/zero state.
  No condition on the scores is needed. Other tables are untouched.
\<close>

theorem endGame_record_and_reset:
  "tables d tableNum = Some tbl \<Longrightarrow>
     endGame d tableNum =
       (Inr Ack,
        d\<lparr>tables := (tables d)(tableNum \<mapsto> zero_row),
          games := games d @
            [\<lparr>g_table_num = tableNum,
              g_player1 = player1 tbl,
              g_player2 = player2 tbl,
              g_score1 = score1 tbl,
              g_score2 = score2 tbl,
              g_winner = (if score1 tbl \<ge> target1 tbl then player1 tbl else player2 tbl),
              g_start_time = start_time tbl\<rparr>]\<rparr>)"
  by (simp add: endGame_def select_table_Some insert_game_def update_table_def Let_def
      reset_row_zero)

theorem endGame_record_and_reset_witness:
  "tables (hall_with midgame_row) 5 = Some midgame_row \<and>
   endGame (hall_with midgame_row) 5 =
     (Inr Ack,
      \<lparr>tables = [1 \<mapsto> zero_row, 5 \<mapsto> zero_row],
       games = [\<lparr>g_table_num = 5, g_player1 = Some ''Kim'', g_player2 = Some ''Lee'',
                 g_score1 = 12, g_score2 = 15, g_winner = Some ''Lee'',
                 g_start_time = Some 1000\<rparr>]\<rparr>)"
  using endGame_record_and_reset [OF tables_hall_with(1), of midgame_row]
  by (simp add: tables_hall_with) (simp add: hall_with_def midgame_row_def)

section \<open>Passing the turn\<close>

text \<open>
  Claim C2. For every table that \<open>nextTurn\<close> finds: if \<open>score1 \<ge> target1\<close> the answer is
  game over with winner \<open>player1\<close> and the database is left as it was; otherwise, if
  \<open>score2 \<ge> target2\<close>, the answer is game over with winner \<open>player2\<close> and the database
  is left as it was. When both thresholds are met the winner is \<open>player1\<close>.
\<close>

theorem nextTurn_win_check:
  "tables d tableNum = Some tbl \<Longrightarrow>
     (score1 tbl \<ge> target1 tbl \<longrightarrow> nextTurn d tableNum = (Inr (GameOver ''player1''), d)) \<and>
     (score1 tbl < target1 tbl \<and> score2 tbl \<ge> target2 tbl \<longrightarrow>
        nextTurn d tableNum = (Inr (GameOver ''player2''), d)) \<and>
     (score1 tbl \<ge> target1 tbl \<and> score2 tbl \<ge> target2 tbl \<longrightarrow>
        nextTurn d tableNum = (Inr (GameOver ''player1''), d))"
  by (simp add: nextTurn_def select_table_Some)

theorem nextTurn_win_check_witness:
  "tables (hall_with (midgame_row\<lparr>score2 := 20\<rparr>)) 5 = Some (midgame_row\<lparr>score2 := 20\<rparr>) \<and>
   score1 (midgame_row\<lparr>score2 := 20\<rparr>) < target1 (midgame_row\<lparr>score2 := 20\<rparr>) \<and>
   score2 (midgame_row\<lparr>score2 := 20\<rparr>) \<ge> target2 (midgame_row\<lparr>score2 := 20\<rparr>) \<and>
   nextTurn (hall_with (midgame_row\<lparr>score2 := 20\<rparr>)) 5 =
     (Inr (GameOver ''player2''), hall_with (midgame_row\<lparr>score2 := 20\<rparr>)) \<and>
   score1 (midgame_row\<lparr>score1 := 25, score2 := 20\<rparr>)
     \<ge> target1 (midgame_row\<lparr>score1 := 25, score2 := 20\<rparr>) \<and>
   score2 (midgame_row\<lparr>score1 := 25, score2 := 20\<rparr>)
     \<ge> target2 (midgame_row\<lparr>score1 := 25, score2 := 20\<rparr>) \<and>
   nextTurn (hall_with (midgame_row\<lparr>score1 := 25, score2 := 20\<rparr>)) 5 =
     (Inr (GameOver ''player1''), hall_with (midgame_row\<lparr>score1 := 25, score2 := 20\<rparr>))"
  using nextTurn_win_check [OF tables_hall_with(1), of "midgame_row\<lparr>score2 := 20\<rparr>"]
    nextTurn_win_check [OF tables_hall_with(1), of "midgame_row\<lparr>score1 := 25, score2 := 20\<rparr>"]
  by (simp add: tables_hall_with midgame_row_def)

text \<open>
  Claim C3, as amended. For every table that \<open>nextTurn\<close> finds with \<open>score1 < target1\<close>
  and \<open>score2 < target2\<close>, the call succeeds and writes the turn and the inning only: a
  turn of \<open>player1\<close> becomes \<open>player2\<close> with the inning unchanged, and every other turn
  (\<open>player2\<close>, but also NULL) becomes \<open>player1\<close> with the inning increased by 1. Two calls
  in a row increase the inning by exactly 1 whatever the turn was, and bring the turn back
  to where it started when it was \<open>player1\<close> or \<open>player2\<close>.
\<close>

theorem nextTurn_alternates:
  assumes "tables d tableNum = Some tbl"
      and "score1 tbl < target1 tbl"
      and "score2 tbl < target2 tbl"
  shows "fst (nextTurn d tableNum) = Inr TurnPassed \<and>
    (current_turn tbl = Some ''player1'' \<longrightarrow>
       snd (nextTurn d tableNum) =
         d\<lparr>tables := (tables d)(tableNum \<mapsto> tbl\<lparr>current_turn := Some ''player2''\<rparr>)\<rparr>) \<and>
    (current_turn tbl \<noteq> Some ''player1'' \<longrightarrow>
       snd (nextTurn d tableNum) =
         d\<lparr>tables := (tables d)(tableNum \<mapsto>
              tbl\<lparr>current_turn := Some ''player1'', inning := inning tbl + 1\<rparr>)\<rparr>) \<and>
    (current_turn tbl = Some ''player1'' \<or> current_turn tbl = Some ''player2'' \<longrightarrow>
       snd (nextTurn (snd (nextTurn d tableNum)) tableNum) =
         d\<lparr>tables := (tables d)(tableNum \<mapsto> tbl\<lparr>inning := inning tbl + 1\<rparr>)\<rparr>) \<and>
    map_option inning (tables (snd (nextTurn (snd (nextTurn d tableNum)) tableNum)) tableNum)
      = Some (inning tbl + 1)"
proof -
  have same_turn: "r\<lparr>current_turn := v, inning := i\<rparr> = r\<lparr>inning := i\<rparr>"
    if "current_turn r = v" for i :: int and v and r :: table_row
    using that by auto
  show ?thesis
    using assms
    by (auto simp add: nextTurn_def select_table_def update_table_def Let_def same_turn)
qed

text \<open>
  In the middle of a game with Lee (\<open>player2\<close>) at the table in inning 3, the turn passes to
  Kim and the inning becomes 4; a second call gives the turn back to Lee, still in inning 4.
\<close>

theorem nextTurn_alternates_witness:
  "tables (hall_with midgame_row) 5 = Some midgame_row \<and>
   score1 midgame_row < target1 midgame_row \<and>
   score2 midgame_row < target2 midgame_row \<and>
   current_turn midgame_row = Some ''player2'' \<and>
   nextTurn (hall_with midgame_row) 5 =
     (Inr TurnPassed, hall_with (midgame_row\<lparr>current_turn := Some ''player1'', inning := 4\<rparr>)) \<and>
   snd (nextTurn (snd (nextTurn (hall_with midgame_row) 5)) 5) =
     hall_with (midgame_row\<lparr>inning := 4\<rparr>)"
proof -
  have h: "tables (hall_with midgame_row) 5 = Some midgame_row"
    by (simp add: tables_hall_with)
  have s1: "score1 midgame_row < target1 midgame_row"
    by (simp add: midgame_row_def)
  have s2: "score2 midgame_row < target2 midgame_row"
    by (simp add: midgame_row_def)
  have t: "current_turn midgame_row = Some ''player2''" "inning midgame_row = 3"
    by (simp_all add: midgame_row_def)
  have u: "(hall_with r)\<lparr>tables := (tables (hall_with r))(5 \<mapsto> r')\<rparr> = hall_with r'" for r r'
    by (simp add: hall_with_def)
  note n = nextTurn_alternates [OF h s1 s2]
  from n t have "nextTurn (hall_with midgame_row) 5 =
      (Inr TurnPassed,
       (hall_with midgame_row)\<lparr>tables := (tables (hall_with midgame_row))(5 \<mapsto>
          midgame_row\<lparr>current_turn := Some ''player1'', inning := inning midgame_row + 1\<rparr>)\<rparr>)"
    by (simp add: prod_eq_iff)
  then have one: "nextTurn (hall_with midgame_row) 5 =
      (Inr TurnPassed, hall_with (midgame_row\<lparr>current_turn := Some ''player1'', inning := 4\<rparr>))"
    by (simp add: u t)
  from n t have "snd (nextTurn (snd (nextTurn (hall_with midgame_row) 5)) 5) =
      (hall_with midgame_row)\<lparr>tables := (tables (hall_with midgame_row))(5 \<mapsto>
          midgame_row\<lparr>inning := inning midgame_row + 1\<rparr>)\<rparr>"
    by blast
  then have two: "snd (nextTurn (snd (nextTurn (hall_with midgame_row) 5)) 5) =
      hall_with (midgame_row\<lparr>inning := 4\<rparr>)"
    by (simp add: u t)
  show ?thesis
    by (intro conjI) (rule h s1 s2 t one two)+
qed

text \<open>
  The claim as written also covers a table whose turn is still NULL. Kim and Lee sit at
  table 5, targets 25 and 20, no colours chosen yet: neither score has reached its target,
  and after two calls of \<open>nextTurn\<close> the turn is \<open>player2\<close>, not NULL again.
\<close>

theorem nextTurn_alternates_counterexample:
  "tables (hall_with kim_lee_row) 5 = Some kim_lee_row \<and>
   score1 kim_lee_row < target1 kim_lee_row \<and>
   score2 kim_lee_row < target2 kim_lee_row \<and>
   current_turn kim_lee_row = None \<and>
   map_option current_turn
     (tables (snd (nextTurn (snd (nextTurn (hall_with kim_lee_row) 5)) 5)) 5)
     = Some (Some ''player2'') \<and>
   map_option current_turn
     (tables (snd (nextTurn (snd (nextTurn (hall_with kim_lee_row) 5)) 5)) 5)
     \<noteq> Some (current_turn kim_lee_row)"
  by (simp add: hall_with_def kim_lee_row_def nextTurn_def select_table_def update_table_def
      Let_def)

section \<open>Starting a game and scoring\<close>

text \<open>
  Claim C5. For every table that exists, in particular one in status waiting,
  \<open>setColors\<close> succeeds and sets the status to occupied, stores both colours, sets the
  inning to 1 and the start time to the current time, and sets the turn to \<open>player2\<close> when
  \<open>color2\<close> is the string white and to \<open>player1\<close> for every other \<open>color2\<close>. The other
  columns and the other tables keep their values.
\<close>

theorem setColors_starts_game:
  "tables d tableNum = Some row \<Longrightarrow>
     (c2 = ''white'' \<longrightarrow>
        setColors d tableNum c1 c2 now =
          (Inr (Started ''player2''),
           d\<lparr>tables := (tables d)(tableNum \<mapsto>
                row\<lparr>status := ''occupied'', color1 := Some c1, color2 := Some c2,
                    current_turn := Some ''player2'', inning := 1, start_time := Some now\<rparr>)\<rparr>)) \<and>
     (c2 \<noteq> ''white'' \<longrightarrow>
        setColors d tableNum c1 c2 now =
          (Inr (Started ''player1''),
           d\<lparr>tables := (tables d)(tableNum \<mapsto>
                row\<lparr>status := ''occupied'', color1 := Some c1, color2 := Some c2,
                    current_turn := Some ''player1'', inning := 1, start_time := Some now\<rparr>)\<rparr>))"
  by (simp add: setColors_def update_table_Some Let_def)

theorem setColors_starts_game_witness:
  "tables (hall_with kim_lee_row) 5 = Some kim_lee_row \<and>
   status kim_lee_row = ''waiting'' \<and>
   map_option (\<lambda>r. (status r, color1 r, color2 r, current_turn r, inning r, start_time r))
     (tables (snd (setColors (hall_with kim_lee_row) 5 ''red'' ''white'' 1000)) 5)
     = Some (''occupied'', Some ''red'', Some ''white'', Some ''player2'', 1, Some 1000) \<and>
   map_option (\<lambda>r. (status r, color1 r, color2 r, current_turn r, inning r, start_time r))
     (tables (snd (setColors (hall_with kim_lee_row) 5 ''white'' ''yellow'' 1000)) 5)
     = Some (''occupied'', Some ''white'', Some ''yellow'', Some ''player1'', 1, Some 1000)"
  using
    setColors_starts_game [where d = "hall_with kim_lee_row" and tableNum = 5
      and row = kim_lee_row and ?c1.0 = "''red''" and ?c2.0 = "''white''" and now = 1000]
    setColors_starts_game [where d = "hall_with kim_lee_row" and tableNum = 5
      and row = kim_lee_row and ?c1.0 = "''white''" and ?c2.0 = "''yellow''" and now = 1000]
  by (simp add: tables_hall_with kim_lee_row_def)

text \<open>
  Claim C9. For every table that exists, \<open>updateScore\<close> writes the score into \<open>score2\<close>
  whenever the turn is anything but the string \<open>player1\<close>, NULL included, and into
  \<open>score1\<close> only when the turn is \<open>player1\<close>.
\<close>

theorem updateScore_column:
  "tables d tableNum = Some row \<Longrightarrow>
     (current_turn row \<noteq> Some ''player1'' \<longrightarrow>
        updateScore d tableNum score =
          (Inr Ack, d\<lparr>tables := (tables d)(tableNum \<mapsto> row\<lparr>score2 := score\<rparr>)\<rparr>)) \<and>
     (current_turn row = Some ''player1'' \<longrightarrow>
        updateScore d tableNum score =
          (Inr Ack, d\<lparr>tables := (tables d)(tableNum \<mapsto> row\<lparr>score1 := score\<rparr>)\<rparr>))"
  by (simp add: updateScore_def select_table_Some update_table_Some)

theorem updateScore_column_witness:
  "tables (hall_with kim_lee_row) 5 = Some kim_lee_row \<and>
   current_turn kim_lee_row = None \<and>
   map_option (\<lambda>r. (score1 r, score2 r)) (tables (snd (updateScore (hall_with kim_lee_row) 5 9)) 5)
     = Some (0, 9) \<and>
   current_turn (midgame_row\<lparr>current_turn := Some ''player1''\<rparr>) = Some ''player1'' \<and>
   map_option (\<lambda>r. (score1 r, score2 r))
     (tables (snd (updateScore (hall_with (midgame_row\<lparr>current_turn := Some ''player1''\<rparr>)) 5 13)) 5)
     = Some (13, 15)"
  using updateScore_column [OF tables_hall_with(1), of kim_lee_row 9]
    updateScore_column [OF tables_hall_with(1), of "midgame_row\<lparr>current_turn := Some ''player1''\<rparr>" 13]
  by (simp add: tables_hall_with kim_lee_row_def midgame_row_def)

text \<open>
  Claim C10. For every table number that no row of \<open>tables\<close> carries, each of
  \<open>updateScore\<close>, \<open>nextTurn\<close> and \<open>endGame\<close> fails with the internal error of its catch
  block, not with \<open>NotFound\<close>, and leaves the whole database, table rows and game records,
  as it was.
\<close>

theorem missing_table_internal_error:
  "tables d tableNum = None \<Longrightarrow>
     updateScore d tableNum score = (Inl InternalError, d) \<and>
     nextTurn d tableNum = (Inl InternalError, d) \<and>
     endGame d tableNum = (Inl InternalError, d)"
  by (simp add: updateScore_def nextTurn_def endGame_def select_table_None)

theorem missing_table_internal_error_witness:
  "tables hall 7 = None \<and>
   updateScore hall 7 12 = (Inl InternalError, hall) \<and>
   nextTurn hall 7 = (Inl InternalError, hall) \<and>
   endGame hall 7 = (Inl InternalError, hall) \<and>
   InternalError \<noteq> NotFound"
proof -
  have h: "tables hall 7 = None" by (simp add: hall_def tables_hall_with)
  show ?thesis using missing_table_internal_error [OF h, of 12] h by simp
qed

section \<open>Opening and cancelling a room\<close>

text \<open>
  Claim C7, as amended. \<open>createRoom\<close> first checks the request: with a table number of 0
  or an empty nickname it fails with \<open>InvalidInput\<close>, whatever the table. With a non-zero
  table number and a non-empty nickname it fails with \<open>NotFound\<close> when no table has that
  number and with \<open>InvalidState\<close> when the table's status is not available; when the status
  is available it sets the status to waiting, \<open>player1\<close> to the nickname and \<open>target1\<close> to
  the target (25 when the request has none), and writes no other column, so \<open>player2\<close> and
  \<open>target2\<close> stay as they were. Every failure leaves the database as it was.
\<close>

theorem createRoom_cases:
  "(tableNum = 0 \<or> nickname = [] \<longrightarrow>
      createRoom d tableNum nickname target = (Inl InvalidInput, d)) \<and>
   (tableNum \<noteq> 0 \<and> nickname \<noteq> [] \<longrightarrow>
      (tables d tableNum = None \<longrightarrow>
         createRoom d tableNum nickname target = (Inl NotFound, d)) \<and>
      (\<forall>row. tables d tableNum = Some row \<and> status row \<noteq> ''available'' \<longrightarrow>
         createRoom d tableNum nickname target = (Inl InvalidState, d)) \<and>
      (\<forall>row. tables d tableNum = Some row \<and> status row = ''available'' \<longrightarrow>
         createRoom d tableNum nickname target =
           (Inr Ack,
            d\<lparr>tables := (tables d)(tableNum \<mapsto>
                 row\<lparr>status := ''waiting'', player1 := Some nickname,
                     target1 := (case target of None \<Rightarrow> 25 | Some t \<Rightarrow> t)\<rparr>)\<rparr>))) \<and>
   (\<forall>e. fst (createRoom d tableNum nickname target) = Inl e \<longrightarrow>
      snd (createRoom d tableNum nickname target) = d)"
  by (auto simp add: createRoom_def select_table_def update_table_def Let_def
      split: option.splits)

text \<open>
  The four outcomes in a hall with tables 1 (available) and 5 (waiting for Lee's approval)
  and no table 7.
\<close>

theorem createRoom_cases_witness:
  "createRoom (hall_with kim_lee_row) 1 [] (Some 25) = (Inl InvalidInput, hall_with kim_lee_row) \<and>
   tables (hall_with kim_lee_row) 7 = None \<and>
   createRoom (hall_with kim_lee_row) 7 ''Park'' (Some 25) = (Inl NotFound, hall_with kim_lee_row) \<and>
   tables (hall_with kim_lee_row) 5 = Some kim_lee_row \<and>
   status kim_lee_row \<noteq> ''available'' \<and>
   createRoom (hall_with kim_lee_row) 5 ''Park'' (Some 25)
     = (Inl InvalidState, hall_with kim_lee_row) \<and>
   tables (hall_with kim_lee_row) 1 = Some zero_row \<and>
   status zero_row = ''available'' \<and>
   createRoom (hall_with kim_lee_row) 1 ''Park'' (Some 30) =
     (Inr Ack,
      (hall_with kim_lee_row)\<lparr>tables := (tables (hall_with kim_lee_row))(1 \<mapsto>
         zero_row\<lparr>status := ''waiting'', player1 := Some ''Park'', target1 := 30\<rparr>)\<rparr>)"
proof -
  have st: "status kim_lee_row \<noteq> ''available''" "status zero_row = ''available''"
    by (simp_all add: kim_lee_row_def zero_row_def)
  show ?thesis
    using st
      createRoom_cases [of 1 "[]" "hall_with kim_lee_row" "Some 25"]
      createRoom_cases [of 7 "''Park''" "hall_with kim_lee_row" "Some 25"]
      createRoom_cases [of 5 "''Park''" "hall_with kim_lee_row" "Some 25"]
      createRoom_cases [of 1 "''Park''" "hall_with kim_lee_row" "Some 30"]
    by (simp add: tables_hall_with)
qed

text \<open>
  The claim as written promises \<open>NotFound\<close> for every table number that does not exist and
  a room for every available table. A request with an empty nickname is answered with
  \<open>InvalidInput\<close> in both situations.
\<close>

theorem createRoom_cases_counterexample:
  "tables hall 7 = None \<and>
   createRoom hall 7 [] (Some 25) = (Inl InvalidInput, hall) \<and>
   fst (createRoom hall 7 [] (Some 25)) \<noteq> Inl NotFound \<and>
   tables hall 5 = Some zero_row \<and>
   status zero_row = ''available'' \<and>
   createRoom hall 5 [] (Some 25) = (Inl InvalidInput, hall)"
  by (simp add: hall_def tables_hall_with createRoom_def zero_row_def)

text \<open>
  Claim C8. \<open>cancelRoom\<close> always succeeds; whatever the row of the table holds, status
  included, the row becomes the available all-null/zero row, and nothing else changes (a
  table number without a row changes nothing). Calling it a second time gives the same
  answer and the same database as the first call.
\<close>

theorem cancelRoom_reset_idempotent:
  "fst (cancelRoom d tableNum) = Inr Ack \<and>
   (\<forall>row. tables d tableNum = Some row \<longrightarrow>
      snd (cancelRoom d tableNum) = d\<lparr>tables := (tables d)(tableNum \<mapsto> zero_row)\<rparr>) \<and>
   (tables d tableNum = None \<longrightarrow> snd (cancelRoom d tableNum) = d) \<and>
   cancelRoom (snd (cancelRoom d tableNum)) tableNum = cancelRoom d tableNum"
  by (auto simp add: cancelRoom_def update_table_def reset_row_zero split: option.splits)

theorem cancelRoom_reset_idempotent_witness:
  "tables (hall_with midgame_row) 5 = Some midgame_row \<and>
   status midgame_row = ''occupied'' \<and>
   cancelRoom (hall_with midgame_row) 5 = (Inr Ack, hall) \<and>
   cancelRoom (snd (cancelRoom (hall_with midgame_row) 5)) 5 = (Inr Ack, hall) \<and>
   tables (hall_with midgame_row) 7 = None \<and>
   cancelRoom (hall_with midgame_row) 7 = (Inr Ack, hall_with midgame_row)"
proof -
  have u: "(hall_with r)\<lparr>tables := (tables (hall_with r))(5 \<mapsto> r')\<rparr> = hall_with r'" for r r'
    by (simp add: hall_with_def)
  have st: "status midgame_row = ''occupied''"
    by (simp add: midgame_row_def)
  note c5 = cancelRoom_reset_idempotent [of "hall_with midgame_row" 5]
  note c7 = cancelRoom_reset_idempotent [of "hall_with midgame_row" 7]
  from c5 have one: "cancelRoom (hall_with midgame_row) 5 = (Inr Ack, hall)"
    by (simp add: tables_hall_with u hall_def prod_eq_iff)
  from c5 one have two: "cancelRoom (snd (cancelRoom (hall_with midgame_row) 5)) 5 = (Inr Ack, hall)"
    by metis
  from c7 have none: "cancelRoom (hall_with midgame_row) 7 = (Inr Ack, hall_with midgame_row)"
    by (simp add: tables_hall_with prod_eq_iff)
  show ?thesis
    by (intro conjI) (rule tables_hall_with st one two none)+
qed

section \<open>The state of an available table as an invariant\<close>

lemma available_zero_zero_row: "available_zero zero_row"
  by (simp add: available_zero_def all_zero_def zero_row_def)

lemma tables_inv_row: "tables_inv d \<Longrightarrow> tables d n = Some r \<Longrightarrow> available_zero r"
  by (auto simp add: tables_inv_def)

lemma tables_inv_update_table:
  assumes "tables_inv d" and "\<And>r. tables d n = Some r \<Longrightarrow> available_zero (f r)"
  shows "tables_inv (update_table d n f)"
  using assms by (auto simp add: tables_inv_def update_table_def split: option.splits)

lemma tables_inv_insert_game: "tables_inv (insert_game d g) = tables_inv d"
  by (simp add: tables_inv_def insert_game_def)

text \<open>The handlers that change the status, or ask for a status other than available.\<close>

lemma createRoom_inv: "tables_inv d \<Longrightarrow> tables_inv (snd (createRoom d n nick t))"
  by (auto simp add: createRoom_def Let_def select_table_def available_zero_def
      intro!: tables_inv_update_table split: option.splits)

lemma joinRoom_inv: "tables_inv d \<Longrightarrow> tables_inv (snd (joinRoom d n nick))"
  by (auto simp add: joinRoom_def select_table_def available_zero_def
      intro!: tables_inv_update_table split: option.splits)

lemma setColors_inv: "tables_inv d \<Longrightarrow> tables_inv (snd (setColors d n c1 c2 now))"
  by (auto simp add: setColors_def Let_def available_zero_def intro!: tables_inv_update_table)

lemma endGame_inv: "tables_inv d \<Longrightarrow> tables_inv (snd (endGame d n))"
  by (auto simp add: endGame_def Let_def select_table_def reset_row_zero available_zero_zero_row
      tables_inv_insert_game
      intro!: tables_inv_update_table split: option.splits)

lemma cancelRoom_inv: "tables_inv d \<Longrightarrow> tables_inv (snd (cancelRoom d n))"
  by (auto simp add: cancelRoom_def reset_row_zero available_zero_zero_row
      intro!: tables_inv_update_table)

text \<open>
  \<open>nextTurn\<close> has no status check, but on an available table in the zero state
  \<open>score1 \<ge> target1\<close> holds (both are 0), so it answers game over and writes nothing.
\<close>

lemma nextTurn_inv:
  assumes "tables_inv d"
  shows "tables_inv (snd (nextTurn d n))"
proof (cases "tables d n")
  case None
  then show ?thesis using assms by (simp add: nextTurn_def select_table_None)
next
  case (Some tbl)
  have az: "available_zero tbl" using assms Some by (rule tables_inv_row)
  show ?thesis
  proof (cases "score1 tbl \<ge> target1 tbl \<or> score2 tbl \<ge> target2 tbl")
    case True
    then show ?thesis using assms Some by (auto simp add: nextTurn_def select_table_Some)
  next
    case False
    with az have "status tbl \<noteq> ''available''"
      by (auto simp add: available_zero_def all_zero_def)
    then show ?thesis
      using assms Some False
      by (auto simp add: nextTurn_def select_table_Some Let_def available_zero_def
          intro!: tables_inv_update_table)
  qed
qed

text \<open>
  \<open>approveJoin\<close> and \<open>updateScore\<close> keep the invariant exactly when they do not write a
  non-zero value into an available table.
\<close>

lemma approveJoin_inv:
  assumes "tables_inv d"
  shows "tables_inv (snd (approveJoin d n t)) \<longleftrightarrow> \<not> writes_available d (ApproveJoin n t)"
proof (cases "tables d n")
  case None
  then show ?thesis using assms by (simp add: approveJoin_def Let_def update_table_None)
next
  case (Some r)
  let ?v = "case t of None \<Rightarrow> 20 | Some x \<Rightarrow> x"
  have az: "available_zero r" using assms Some by (rule tables_inv_row)
  have d': "snd (approveJoin d n t) = d\<lparr>tables := (tables d)(n \<mapsto> r\<lparr>target2 := ?v\<rparr>)\<rparr>"
    using Some by (simp add: approveJoin_def Let_def update_table_Some)
  have "tables_inv (d\<lparr>tables := (tables d)(n \<mapsto> r\<lparr>target2 := ?v\<rparr>)\<rparr>)
        \<longleftrightarrow> available_zero (r\<lparr>target2 := ?v\<rparr>)"
    using assms by (auto simp add: tables_inv_def)
  moreover have "available_zero (r\<lparr>target2 := ?v\<rparr>) \<longleftrightarrow> \<not> (status r = ''available'' \<and> ?v \<noteq> 0)"
    using az by (auto simp add: available_zero_def all_zero_def)
  ultimately show ?thesis using Some d' by simp
qed

lemma updateScore_inv:
  assumes "tables_inv d"
  shows "tables_inv (snd (updateScore d n s)) \<longleftrightarrow> \<not> writes_available d (UpdateScore n s)"
proof (cases "tables d n")
  case None
  then show ?thesis using assms by (simp add: updateScore_def select_table_None)
next
  case (Some r)
  let ?r' = "if current_turn r = Some ''player1'' then r\<lparr>score1 := s\<rparr> else r\<lparr>score2 := s\<rparr>"
  have az: "available_zero r" using assms Some by (rule tables_inv_row)
  have d': "snd (updateScore d n s) = d\<lparr>tables := (tables d)(n \<mapsto> ?r')\<rparr>"
    using Some by (simp add: updateScore_def select_table_Some update_table_Some)
  have "tables_inv (d\<lparr>tables := (tables d)(n \<mapsto> ?r')\<rparr>) \<longleftrightarrow> available_zero ?r'"
    using assms by (auto simp add: tables_inv_def)
  moreover have "available_zero ?r' \<longleftrightarrow> \<not> (status r = ''available'' \<and> s \<noteq> 0)"
    using az by (auto simp add: available_zero_def all_zero_def)
  ultimately show ?thesis using Some d' by simp
qed

lemma handle_inv:
  "tables_inv d \<Longrightarrow> tables_inv (snd (handle d q)) \<longleftrightarrow> \<not> writes_available d q"
  by (cases q)
     (simp_all add: createRoom_inv joinRoom_inv setColors_inv nextTurn_inv endGame_inv
        cancelRoom_inv approveJoin_inv updateScore_inv)

lemma tables_inv_hall: "tables_inv hall"
  by (simp add: tables_inv_def hall_def hall_with_def available_zero_zero_row)

lemma guarded_scenario: "guarded_run hall scenario"
  by (simp add: scenario_def hall_def hall_with_def zero_row_def createRoom_def joinRoom_def
      approveJoin_def setColors_def updateScore_def nextTurn_def endGame_def
      select_table_def update_table_def insert_game_def reset_row_def Let_def)

text \<open>
  Claim C4, as amended. In a database where every available table has its players,
  scores, targets, colours, turn, inning and start time all null or zero, this still holds
  after every sequence of requests in which no \<open>approveJoin\<close> writes a non-zero target, and
  no \<open>updateScore\<close> a non-zero score, into a table that is available at that moment.
  \<open>createRoom\<close>, \<open>joinRoom\<close>, \<open>setColors\<close>, \<open>nextTurn\<close>, \<open>endGame\<close> and \<open>cancelRoom\<close>
  preserve it on every table and with every argument.
\<close>

theorem available_zero_invariant:
  "tables_inv d \<Longrightarrow> guarded_run d qs \<Longrightarrow> tables_inv (run d qs)"
proof (induction qs arbitrary: d)
  case Nil
  then show ?case by simp
next
  case (Cons q qs)
  from Cons.prems have "tables_inv (snd (handle d q))" by (simp add: handle_inv)
  moreover from Cons.prems have "guarded_run (snd (handle d q)) qs" by simp
  ultimately show ?case using Cons.IH by simp
qed

text \<open>
  The scenario of a whole game at table 5, from \<open>createRoom\<close> to \<open>endGame\<close>, starting in a
  hall of available tables.
\<close>

theorem available_zero_invariant_witness:
  "tables_inv hall \<and> guarded_run hall scenario \<and> tables_inv (run hall scenario)"
  using available_zero_invariant [OF tables_inv_hall guarded_scenario]
    tables_inv_hall guarded_scenario by simp

text \<open>
  Neither \<open>approveJoin\<close> nor \<open>updateScore\<close> looks at the status: sent to the available
  table 5 they leave it available with \<open>target2 = 20\<close>, or with \<open>score2 = 7\<close>.
\<close>

theorem available_zero_invariant_counterexample:
  "tables_inv hall \<and>
   \<not> tables_inv (snd (approveJoin hall 5 None)) \<and>
   \<not> tables_inv (snd (updateScore hall 5 7))"
proof -
  have "\<not> available_zero (zero_row\<lparr>target2 := 20\<rparr>)"
    by (simp add: available_zero_def all_zero_def zero_row_def)
  moreover have "tables (snd (approveJoin hall 5 None)) 5 = Some (zero_row\<lparr>target2 := 20\<rparr>)"
    by (simp add: approveJoin_def hall_def hall_with_def update_table_def)
  ultimately have a: "\<not> tables_inv (snd (approveJoin hall 5 None))"
    unfolding tables_inv_def by blast
  have "\<not> available_zero (zero_row\<lparr>score2 := 7\<rparr>)"
    by (simp add: available_zero_def all_zero_def zero_row_def)
  moreover have "tables (snd (updateScore hall 5 7)) 5 = Some (zero_row\<lparr>score2 := 7\<rparr>)"
    by (simp add: updateScore_def hall_def hall_with_def update_table_def select_table_def
        zero_row_def)
  ultimately have b: "\<not> tables_inv (snd (updateScore hall 5 7))"
    unfolding tables_inv_def by blast
  show ?thesis using a b tables_inv_hall by simp
qed

end
